theory Spec2Isabelle
  imports Complex_Main
begin

section \<open>Capacity estimator (speedtest.js)\<close>






section \<open>Session probe (stream-monitor.js)\<close>

text \<open>
  An awaited call either throws an error, of which the code reads only \<open>message\<close>, or
  returns a value. \<open>await\<close> sequences two awaited calls inside one \<open>try\<close> block: the
  first throw leaves the block.
\<close>

datatype 'a attempt = Throws string | Returns 'a

definition await :: "'a attempt \<Rightarrow> ('a \<Rightarrow> 'b attempt) \<Rightarrow> 'b attempt" where
  "await a k = (case a of Throws message \<Rightarrow> Throws message | Returns v \<Rightarrow> k v)"

text \<open>
  The object \<open>window._streamHealth\<close> that \<open>injectMonitor\<close> installs in the page. Its
  \<open>errors\<close> field is named \<open>probeErrors\<close> here, \<open>errors\<close> being the counter of the
  manager's statistics.
\<close>

record streamHealth =
  isPlaying :: bool
  currentTime :: real
  lastTime :: real
  stalledCount :: nat
  bufferingCount :: nat
  probeErrors :: "string list"
  readyState :: nat
  startTime :: nat

text \<open>
  What \<open>getHealth\<close> returns. The two fallback objects have six fields; the object built
  by \<open>{...health, healthy}\<close> carries the probe's \<open>lastTime\<close>, \<open>readyState\<close> and
  \<open>startTime\<close> as well.
\<close>

record health =
  h_isPlaying :: bool
  h_currentTime :: real
  h_stalledCount :: nat
  h_bufferingCount :: nat
  h_errors :: "string list"
  h_healthy :: bool
  h_lastTime :: "real option"
  h_readyState :: "nat option"
  h_startTime :: "nat option"

type_synonym browser = nat
type_synonym page = nat
type_synonym timer = nat

text \<open>
  \<open>page.evaluate(() => window._streamHealth)\<close> on each page: it throws, or returns the
  probe object, or returns nothing (\<open>None\<close>) when no probe is installed.
\<close>

type_synonym probe = "page \<Rightarrow> streamHealth option attempt"

definition getHealth :: "probe \<Rightarrow> page \<Rightarrow> health attempt" where
  "getHealth evaluate page =
     (case evaluate page of
        Returns None \<Rightarrow>
          Returns \<lparr>h_isPlaying = False, h_currentTime = 0, h_stalledCount = 0,
            h_bufferingCount = 0, h_errors = [''Monitor not initialized''],
            h_healthy = False, h_lastTime = None, h_readyState = None, h_startTime = None\<rparr>
      | Returns (Some h) \<Rightarrow>
          (let timeAdvancing = (currentTime h > lastTime h);
               isHealthy = (isPlaying h \<and> timeAdvancing \<and> length (probeErrors h) = 0)
           in Returns \<lparr>h_isPlaying = isPlaying h, h_currentTime = currentTime h,
                h_stalledCount = stalledCount h, h_bufferingCount = bufferingCount h,
                h_errors = probeErrors h, h_healthy = isHealthy,
                h_lastTime = Some (lastTime h), h_readyState = Some (readyState h),
                h_startTime = Some (startTime h)\<rparr>)
      | Throws message \<Rightarrow>
          Returns \<lparr>h_isPlaying = False, h_currentTime = 0, h_stalledCount = 0,
            h_bufferingCount = 0, h_errors = [message],
            h_healthy = False, h_lastTime = None, h_readyState = None, h_startTime = None\<rparr>)"

text \<open>
  Probe objects and a probe for the examples: page 1 plays, page 2 has no probe, the read
  of page 3 throws, page 4 is frozen at one timestamp, page 5 advances with an error
  recorded, page 6 is paused without an error.
\<close>

definition playingHealth :: streamHealth where
  "playingHealth =
     \<lparr>isPlaying = True, currentTime = 12, lastTime = 11, stalledCount = 0,
      bufferingCount = 0, probeErrors = [], readyState = 4, startTime = 0\<rparr>"

definition frozenHealth :: streamHealth where
  "frozenHealth = playingHealth\<lparr>currentTime := 11\<rparr>"

definition failedHealth :: streamHealth where
  "failedHealth = playingHealth\<lparr>probeErrors := [''Unknown error'']\<rparr>"

definition pausedHealth :: streamHealth where
  "pausedHealth = playingHealth\<lparr>isPlaying := False\<rparr>"

definition sampleProbe :: probe where
  "sampleProbe page =
     (if page = 1 then Returns (Some playingHealth)
      else if page = 2 then Returns None
      else if page = 3 then Throws ''Target closed''
      else if page = 4 then Returns (Some frozenHealth)
      else if page = 5 then Returns (Some failedHealth)
      else Returns (Some pausedHealth))"

section \<open>Browser manager (browser-manager.js)\<close>

record fleet_stats =
  launched :: nat
  healthy :: nat
  buffering :: nat
  errors :: nat

record manager =
  browsers :: "browser list"
  pages :: "page list"
  stats :: fleet_stats
  isShuttingDown :: bool
  healthCheckInterval :: "timer option"

definition constructor :: manager where
  "constructor =
     \<lparr>browsers = [], pages = [],
      stats = \<lparr>launched = 0, healthy = 0, buffering = 0, errors = 0\<rparr>,
      isShuttingDown = False, healthCheckInterval = None\<rparr>"

text \<open>
  What the browser does for one launch: the outcome of each awaited call of
  \<open>launchBrowser\<close>, in the order the code makes them. \<open>waitForPlayback\<close> catches its own
  timeout and returns a boolean.
\<close>

record launch_env =
  chromium_launch :: "browser attempt"
  newContext :: "unit attempt"
  newPage :: "page attempt"
  goto :: "unit attempt"
  injectMonitor :: "unit attempt"
  attemptPlay :: "unit attempt"
  waitForPlayback :: bool

type_synonym world = "nat \<Rightarrow> string \<Rightarrow> launch_env"

record launch_result =
  success :: bool
  error :: "string option"

definition launchBrowser :: "world \<Rightarrow> nat \<Rightarrow> string \<Rightarrow> manager \<Rightarrow> launch_result \<times> manager" where
  "launchBrowser world index streamUrl s =
     (let env = world index streamUrl;
          tried =
            await (chromium_launch env) (\<lambda>browser.
            await (newContext env) (\<lambda>context.
            await (newPage env) (\<lambda>page.
            await (goto env) (\<lambda>_.
            await (injectMonitor env) (\<lambda>_.
            await (attemptPlay env) (\<lambda>_.
            Returns (browser, page, waitForPlayback env)))))))
      in case tried of
           Returns (browser, page, playing) \<Rightarrow>
             (let s1 = s\<lparr>browsers := browsers s @ [browser], pages := pages s @ [page],
                        stats := (stats s)\<lparr>launched := launched (stats s) + 1\<rparr>\<rparr>
              in if playing
                 then (\<lparr>success = True, error = None\<rparr>,
                       s1\<lparr>stats := (stats s1)\<lparr>healthy := healthy (stats s1) + 1\<rparr>\<rparr>)
                 else (\<lparr>success = True, error = Some ''Video not playing yet''\<rparr>, s1))
         | Throws message \<Rightarrow>
             (\<lparr>success = False, error = Some message\<rparr>,
              s\<lparr>stats := (stats s)\<lparr>errors := errors (stats s) + 1\<rparr>\<rparr>))"

text \<open>
  Two readings of a launch's environment, for stating what \<open>launchBrowser\<close> returns.
  \<open>firstThrow\<close> is the message of the first awaited call inside the \<open>try\<close> block that
  throws, if any does. \<open>throwsBeforeProbe\<close> says that a call made before the probe is
  installed throws: the launch, the context, the page or the navigation.
\<close>

definition thrown :: "'a attempt \<Rightarrow> string option" where
  "thrown a = (case a of Throws message \<Rightarrow> Some message | Returns _ \<Rightarrow> None)"

definition firstThrow :: "launch_env \<Rightarrow> string option" where
  "firstThrow env =
     (case filter (\<lambda>t. t \<noteq> None)
             [thrown (chromium_launch env), thrown (newContext env), thrown (newPage env),
              thrown (goto env), thrown (injectMonitor env), thrown (attemptPlay env)] of
        [] \<Rightarrow> None
      | t # _ \<Rightarrow> t)"

definition throwsBeforeProbe :: "launch_env \<Rightarrow> bool" where
  "throwsBeforeProbe env =
     (thrown (chromium_launch env) \<noteq> None \<or> thrown (newContext env) \<noteq> None
      \<or> thrown (newPage env) \<noteq> None \<or> thrown (goto env) \<noteq> None)"

text \<open>
  Environments for the examples: launch 1 plays, launch 2 does not play in time, the
  navigation of launch 3 fails, the page of launch 4 goes away once the probe is
  installed, every later launch plays.
\<close>

definition okEnv :: "browser \<Rightarrow> page \<Rightarrow> bool \<Rightarrow> launch_env" where
  "okEnv b p playing =
     \<lparr>chromium_launch = Returns b, newContext = Returns (), newPage = Returns p,
      goto = Returns (), injectMonitor = Returns (), attemptPlay = Returns (),
      waitForPlayback = playing\<rparr>"

definition sampleWorld :: world where
  "sampleWorld index streamUrl =
     (if index = 1 then okEnv 101 201 True
      else if index = 2 then okEnv 102 202 False
      else if index = 3 then (okEnv 103 203 True)\<lparr>goto := Throws ''net::ERR_CONNECTION_REFUSED''\<rparr>
      else if index = 4 then (okEnv 104 204 True)\<lparr>attemptPlay := Throws ''Target closed''\<rparr>
      else okEnv (100 + index) (200 + index) True)"

text \<open>What the manager does to the outside, in the order it does it.\<close>

datatype event =
    Launch nat string
  | Progress nat nat bool "string option" fleet_stats
  | Sleep nat
  | Update fleet_stats
  | ClearInterval timer
  | Close browser
  | Closed nat nat

definition stopHealthChecks :: "manager \<Rightarrow> manager \<times> event list" where
  "stopHealthChecks s =
     (case healthCheckInterval s of
        Some t \<Rightarrow> (s\<lparr>healthCheckInterval := None\<rparr>, [ClearInterval t])
      | None \<Rightarrow> (s, []))"

text \<open>
  \<open>shutdown\<close> runs from its guard to its first \<open>await\<close> without a break: the flag is
  raised and the interval stopped in one piece, \<open>beginShutdown\<close>. The sweep over the
  browsers follows; \<open>close\<close> tells which browsers close and which throw.
\<close>

definition beginShutdown :: "manager \<Rightarrow> manager \<times> event list" where
  "beginShutdown s = stopHealthChecks (s\<lparr>isShuttingDown := True\<rparr>)"

fun closeAll :: "(browser \<Rightarrow> unit attempt) \<Rightarrow> browser list \<Rightarrow> nat \<Rightarrow> nat \<times> event list" where
  "closeAll close [] nClosed = (nClosed, [])"
| "closeAll close (browser # rest) nClosed =
     (let nClosed' = (case close browser of Returns _ \<Rightarrow> nClosed + 1 | Throws _ \<Rightarrow> nClosed);
          (n, evs) = closeAll close rest nClosed'
      in (n, Close browser # evs))"

definition shutdown :: "(browser \<Rightarrow> unit attempt) \<Rightarrow> manager \<Rightarrow> manager \<times> event list" where
  "shutdown close s =
     (if isShuttingDown s then (s, [])
      else
        (let (s1, stopped) = beginShutdown s;
             (nClosed, closes) = closeAll close (browsers s1) 0
         in (s1\<lparr>browsers := [], pages := []\<rparr>,
             stopped @ closes @ [Closed nClosed (length (browsers s1))])))"







text \<open>
  \<open>startHealthChecks\<close> stores the interval; \<open>healthCheckTick\<close> is the callback the
  interval runs. \<open>sweep\<close> is its loop over \<open>this.pages\<close>, with the three local counters.
\<close>

definition startHealthChecks :: "timer \<Rightarrow> manager \<Rightarrow> manager" where
  "startHealthChecks t s = s\<lparr>healthCheckInterval := Some t\<rparr>"

fun sweep :: "probe \<Rightarrow> page list \<Rightarrow> nat \<times> nat \<times> nat \<Rightarrow> nat \<times> nat \<times> nat" where
  "sweep evaluate [] counters = counters"
| "sweep evaluate (page # rest) (h, b, e) =
     (case getHealth evaluate page of
        Returns health \<Rightarrow>
          if h_healthy health then sweep evaluate rest (h + 1, b, e)
          else if length (h_errors health) > 0 then sweep evaluate rest (h, b, e + 1)
          else sweep evaluate rest (h, b + 1, e)
      | Throws _ \<Rightarrow> sweep evaluate rest (h, b, e + 1))"

definition healthCheckTick :: "probe \<Rightarrow> bool \<Rightarrow> manager \<Rightarrow> manager \<times> event list" where
  "healthCheckTick evaluate onUpdate s =
     (if isShuttingDown s then (s, [])
      else
        (let (h, b, e) = sweep evaluate (pages s) (0, 0, 0);
             s1 = s\<lparr>stats := (stats s)\<lparr>healthy := h, buffering := b, errors := e\<rparr>\<rparr>
         in (s1, if onUpdate then [Update (stats s1)] else [])))"

text \<open>
  The category a tracked page falls in on a tick, read off the probe alone, and the
  number of pages of a list in a category. They state what \<open>sweep\<close> counts.
\<close>

datatype category = Healthy | Buffering | Errored

definition categoryOf :: "probe \<Rightarrow> page \<Rightarrow> category" where
  "categoryOf evaluate page =
     (case evaluate page of
        Throws _ \<Rightarrow> Errored
      | Returns None \<Rightarrow> Errored
      | Returns (Some h) \<Rightarrow>
          if isPlaying h \<and> lastTime h < currentTime h \<and> probeErrors h = [] then Healthy
          else if probeErrors h \<noteq> [] then Errored
          else Buffering)"

definition countOf :: "probe \<Rightarrow> category \<Rightarrow> page list \<Rightarrow> nat" where
  "countOf evaluate c ps = length (filter (\<lambda>p. categoryOf evaluate p = c) ps)"









text \<open>Closing browsers in the examples: browser 103 throws, the others close.\<close>

definition sampleClose :: "browser \<Rightarrow> unit attempt" where
  "sampleClose b = (if b = 103 then Throws ''Target closed'' else Returns ())"

text \<open>Counting one session in a category: that counter goes up by one, the others stay.\<close>

definition countedAs :: "category \<Rightarrow> fleet_stats \<Rightarrow> fleet_stats" where
  "countedAs c st =
     (case c of
        Healthy \<Rightarrow> st\<lparr>healthy := healthy st + 1\<rparr>
      | Buffering \<Rightarrow> st\<lparr>buffering := buffering st + 1\<rparr>
      | Errored \<Rightarrow> st\<lparr>errors := errors st + 1\<rparr>)"

text \<open>A manager for the examples: six pages tracked, counters left by the launches.\<close>

definition sampleManager :: manager where
  "sampleManager =
     \<lparr>browsers = [101, 102, 103, 104, 105, 106], pages = [1, 2, 3, 4, 5, 6],
      stats = \<lparr>launched = 6, healthy = 5, buffering = 0, errors = 2\<rparr>,
      isShuttingDown = False, healthCheckInterval = Some 7\<rparr>"

text \<open>
  Managers whose shutdown has begun, for the examples: the flag is up, the sweep has not
  yet emptied the lists, and the health checks are started only then, as the start-up
  timer of \<open>index.js\<close> starts them whether or not a shutdown has begun.
  \<open>stoppingManager\<close> is the manager above; \<open>lateManager\<close> has made launch 2 only;
  \<open>interruptedManager\<close> has made launch 1 and then launch 3.
\<close>

definition stoppingManager :: manager where
  "stoppingManager = startHealthChecks 8 (fst (beginShutdown sampleManager))"

definition lateManager :: manager where
  "lateManager =
     startHealthChecks 8
       (fst (beginShutdown (snd (launchBrowser sampleWorld 2 ''u'' constructor))))"

definition interruptedManager :: manager where
  "interruptedManager =
     startHealthChecks 8
       (fst (beginShutdown
               (snd (launchBrowser sampleWorld 3 ''u''
                       (snd (launchBrowser sampleWorld 1 ''u'' constructor))))))"

section \<open>The capacity estimator's budget\<close>



section \<open>The manual bandwidth entry\<close>



section \<open>Health classification of a probe snapshot\<close>

text \<open>
  C2. When the probe of a page can be read, \<open>getHealth\<close> returns a result that is healthy
  if and only if the probe says it is playing, its current playback time is strictly
  greater than the previous sample, and its error list is empty. So a snapshot whose two
  samples are equal is unhealthy even when it is playing, and a snapshot with an error
  recorded is unhealthy even when its time advances.
\<close>

theorem getHealth_healthy_iff:
  assumes "evaluate page = Returns (Some h)"
  shows "\<exists>r. getHealth evaluate page = Returns r
           \<and> h_healthy r = (isPlaying h \<and> lastTime h < currentTime h \<and> probeErrors h = [])
           \<and> (isPlaying h \<and> currentTime h = lastTime h \<longrightarrow> \<not> h_healthy r)
           \<and> (lastTime h < currentTime h \<and> probeErrors h \<noteq> [] \<longrightarrow> \<not> h_healthy r)"
  using assms by (simp add: getHealth_def Let_def)

theorem getHealth_healthy_iff_witness:
  "sampleProbe 1 = Returns (Some playingHealth)
   \<and> (\<exists>r. getHealth sampleProbe 1 = Returns r \<and> h_healthy r)
   \<and> sampleProbe 4 = Returns (Some frozenHealth)
   \<and> isPlaying frozenHealth \<and> currentTime frozenHealth = lastTime frozenHealth
   \<and> (\<exists>r. getHealth sampleProbe 4 = Returns r \<and> \<not> h_healthy r)
   \<and> sampleProbe 5 = Returns (Some failedHealth)
   \<and> lastTime failedHealth < currentTime failedHealth \<and> probeErrors failedHealth \<noteq> []
   \<and> (\<exists>r. getHealth sampleProbe 5 = Returns r \<and> \<not> h_healthy r)"
proof -
  have p1: "sampleProbe 1 = Returns (Some playingHealth)"
    and p4: "sampleProbe 4 = Returns (Some frozenHealth)"
    and p5: "sampleProbe 5 = Returns (Some failedHealth)"
    by (simp_all add: sampleProbe_def)
  have v1: "isPlaying playingHealth \<and> lastTime playingHealth < currentTime playingHealth
            \<and> probeErrors playingHealth = []"
    by (simp add: playingHealth_def)
  have v4: "isPlaying frozenHealth \<and> currentTime frozenHealth = lastTime frozenHealth"
    by (simp add: frozenHealth_def playingHealth_def)
  have v5: "lastTime failedHealth < currentTime failedHealth \<and> probeErrors failedHealth \<noteq> []"
    by (simp add: failedHealth_def playingHealth_def)
  from getHealth_healthy_iff [of sampleProbe 1 playingHealth, OF p1] v1
  have g1: "\<exists>r. getHealth sampleProbe 1 = Returns r \<and> h_healthy r" by auto
  from getHealth_healthy_iff [of sampleProbe 4 frozenHealth, OF p4] v4
  have g4: "\<exists>r. getHealth sampleProbe 4 = Returns r \<and> \<not> h_healthy r" by auto
  from getHealth_healthy_iff [of sampleProbe 5 failedHealth, OF p5] v5
  have g5: "\<exists>r. getHealth sampleProbe 5 = Returns r \<and> \<not> h_healthy r" by auto
  show ?thesis using p1 p4 p5 v4 v5 g1 g4 g5 by simp
qed

section \<open>Health of a probe that cannot be read\<close>

text \<open>
  C7. When no probe is installed in the page, \<open>getHealth\<close> returns an unhealthy result
  whose errors are the one message \<open>Monitor not initialized\<close>; when the read throws, it
  returns an unhealthy result whose errors are the one message of the thrown error. In
  every case \<open>getHealth\<close> returns a result and throws nothing to its caller.
\<close>

theorem getHealth_unreadable:
  "(evaluate page = Returns None
      \<longrightarrow> getHealth evaluate page
            = Returns \<lparr>h_isPlaying = False, h_currentTime = 0, h_stalledCount = 0,
                h_bufferingCount = 0, h_errors = [''Monitor not initialized''],
                h_healthy = False, h_lastTime = None, h_readyState = None,
                h_startTime = None\<rparr>)
   \<and> (evaluate page = Throws message
      \<longrightarrow> getHealth evaluate page
            = Returns \<lparr>h_isPlaying = False, h_currentTime = 0, h_stalledCount = 0,
                h_bufferingCount = 0, h_errors = [message],
                h_healthy = False, h_lastTime = None, h_readyState = None,
                h_startTime = None\<rparr>)
   \<and> (\<exists>r. getHealth evaluate page = Returns r)"
  by (simp add: getHealth_def Let_def split: attempt.splits option.splits)

theorem getHealth_unreadable_witness:
  "sampleProbe 2 = Returns None
   \<and> (\<exists>r. getHealth sampleProbe 2 = Returns r \<and> \<not> h_healthy r
          \<and> h_errors r = [''Monitor not initialized''])
   \<and> sampleProbe 3 = Throws ''Target closed''
   \<and> (\<exists>r. getHealth sampleProbe 3 = Returns r \<and> \<not> h_healthy r
          \<and> h_errors r = [''Target closed''])"
proof -
  have p2: "sampleProbe 2 = Returns None" and p3: "sampleProbe 3 = Throws ''Target closed''"
    by (simp_all add: sampleProbe_def)
  show ?thesis
    using getHealth_unreadable [of sampleProbe 2] getHealth_unreadable [of sampleProbe 3 "''Target closed''"]
      p2 p3
    by simp
qed

section \<open>The outcome of one launch\<close>

text \<open>
  What \<open>launchBrowser\<close> returns and does, by whether one of its six awaited calls throws.
\<close>

lemma launchBrowser_throws:
  assumes "firstThrow (world index streamUrl) = Some message"
  shows "launchBrowser world index streamUrl s
           = (\<lparr>success = False, error = Some message\<rparr>,
              s\<lparr>stats := (stats s)\<lparr>errors := errors (stats s) + 1\<rparr>\<rparr>)"
  using assms
  by (simp add: launchBrowser_def firstThrow_def thrown_def await_def Let_def
        split: attempt.splits)

lemma launchBrowser_returns:
  assumes "firstThrow (world index streamUrl) = None"
  shows "\<exists>b p. chromium_launch (world index streamUrl) = Returns b
           \<and> newPage (world index streamUrl) = Returns p
           \<and> launchBrowser world index streamUrl s
             = (if waitForPlayback (world index streamUrl)
                then (\<lparr>success = True, error = None\<rparr>,
                      s\<lparr>browsers := browsers s @ [b], pages := pages s @ [p],
                        stats := (stats s)\<lparr>launched := launched (stats s) + 1,
                                           healthy := healthy (stats s) + 1\<rparr>\<rparr>)
                else (\<lparr>success = True, error = Some ''Video not playing yet''\<rparr>,
                      s\<lparr>browsers := browsers s @ [b], pages := pages s @ [p],
                        stats := (stats s)\<lparr>launched := launched (stats s) + 1\<rparr>\<rparr>))"
  using assms
  by (simp add: launchBrowser_def firstThrow_def thrown_def await_def Let_def
        split: attempt.splits)

text \<open>
  C6, as the claim states it, fails: the claim lets a launch fail only when a call made
  before the probe is installed throws. Launch 4 of the example gets through the browser
  launch, the context, the page, the navigation and the installation of the probe; the
  play attempt then throws, and the launch returns \<open>success: false\<close> with that message.
\<close>

theorem launchBrowser_fails_after_probe:
  "\<not> success (fst (launchBrowser sampleWorld 4 ''u'' constructor))
   \<and> error (fst (launchBrowser sampleWorld 4 ''u'' constructor)) = Some ''Target closed''
   \<and> injectMonitor (sampleWorld 4 ''u'') = Returns ()
   \<and> \<not> throwsBeforeProbe (sampleWorld 4 ''u'')"
  by (simp add: launchBrowser_def sampleWorld_def okEnv_def await_def throwsBeforeProbe_def
        thrown_def Let_def)

text \<open>
  C6, amended. A launch returns \<open>success: false\<close> exactly when one of the awaited calls
  inside the \<open>try\<close> block throws (browser launch, context, page, navigation, probe
  installation, play attempt), and \<open>error\<close> is then the message of the first one that
  throws. When none throws and playback is not confirmed in time, it returns
  \<open>success: true\<close> with the error \<open>Video not playing yet\<close>; when playback is confirmed,
  \<open>success: true\<close> with no error. Every \<open>success: true\<close> launch appends its browser and
  its page to the tracked lists and adds one to the launch counter.
\<close>

theorem launchBrowser_outcome:
  "(firstThrow (world index streamUrl) = Some message
      \<longrightarrow> fst (launchBrowser world index streamUrl s) = \<lparr>success = False, error = Some message\<rparr>)
   \<and> (firstThrow (world index streamUrl) = None \<and> \<not> waitForPlayback (world index streamUrl)
      \<longrightarrow> fst (launchBrowser world index streamUrl s)
            = \<lparr>success = True, error = Some ''Video not playing yet''\<rparr>)
   \<and> (firstThrow (world index streamUrl) = None \<and> waitForPlayback (world index streamUrl)
      \<longrightarrow> fst (launchBrowser world index streamUrl s) = \<lparr>success = True, error = None\<rparr>)
   \<and> success (fst (launchBrowser world index streamUrl s))
       = (firstThrow (world index streamUrl) = None)
   \<and> (success (fst (launchBrowser world index streamUrl s))
      \<longrightarrow> (\<exists>b p. chromium_launch (world index streamUrl) = Returns b
                 \<and> newPage (world index streamUrl) = Returns p
                 \<and> browsers (snd (launchBrowser world index streamUrl s)) = browsers s @ [b]
                 \<and> pages (snd (launchBrowser world index streamUrl s)) = pages s @ [p])
          \<and> launched (stats (snd (launchBrowser world index streamUrl s)))
              = launched (stats s) + 1)"
proof (cases "firstThrow (world index streamUrl)")
  case None
  from launchBrowser_returns [of world index streamUrl s, OF None] show ?thesis
    using None by auto
next
  case (Some m)
  from launchBrowser_throws [of world index streamUrl m s, OF Some] show ?thesis
    using Some by simp
qed

theorem launchBrowser_outcome_witness:
  "firstThrow (sampleWorld 3 ''u'') = Some ''net::ERR_CONNECTION_REFUSED''
   \<and> fst (launchBrowser sampleWorld 3 ''u'' constructor)
       = \<lparr>success = False, error = Some ''net::ERR_CONNECTION_REFUSED''\<rparr>
   \<and> firstThrow (sampleWorld 2 ''u'') = None \<and> \<not> waitForPlayback (sampleWorld 2 ''u'')
   \<and> fst (launchBrowser sampleWorld 2 ''u'' constructor)
       = \<lparr>success = True, error = Some ''Video not playing yet''\<rparr>
   \<and> firstThrow (sampleWorld 1 ''u'') = None \<and> waitForPlayback (sampleWorld 1 ''u'')
   \<and> fst (launchBrowser sampleWorld 1 ''u'' constructor) = \<lparr>success = True, error = None\<rparr>
   \<and> success (fst (launchBrowser sampleWorld 1 ''u'' constructor))
   \<and> browsers (snd (launchBrowser sampleWorld 1 ''u'' constructor)) = [101]
   \<and> pages (snd (launchBrowser sampleWorld 1 ''u'' constructor)) = [201]
   \<and> launched (stats (snd (launchBrowser sampleWorld 1 ''u'' constructor))) = 1"
proof -
  have e3: "firstThrow (sampleWorld 3 ''u'') = Some ''net::ERR_CONNECTION_REFUSED''"
    by (simp add: sampleWorld_def okEnv_def firstThrow_def thrown_def)
  have e2: "firstThrow (sampleWorld 2 ''u'') = None \<and> \<not> waitForPlayback (sampleWorld 2 ''u'')"
    by (simp add: sampleWorld_def okEnv_def firstThrow_def thrown_def)
  have e1: "firstThrow (sampleWorld 1 ''u'') = None \<and> waitForPlayback (sampleWorld 1 ''u'')"
    by (simp add: sampleWorld_def okEnv_def firstThrow_def thrown_def)
  have c1: "chromium_launch (sampleWorld 1 ''u'') = Returns 101
            \<and> newPage (sampleWorld 1 ''u'') = Returns 201"
    by (simp add: sampleWorld_def okEnv_def)
  have s0: "browsers constructor = [] \<and> pages constructor = []
            \<and> launched (stats constructor) = 0"
    by (simp add: constructor_def)
  show ?thesis
    using launchBrowser_outcome [of sampleWorld 3 "''u''" "''net::ERR_CONNECTION_REFUSED''" constructor]
      launchBrowser_outcome [of sampleWorld 2 "''u''" _ constructor]
      launchBrowser_outcome [of sampleWorld 1 "''u''" _ constructor]
      e1 e2 e3 c1 s0
    by auto
qed

section \<open>The health-polling tick\<close>

text \<open>
  The loop of the tick adds to its three counters the number of pages of each category;
  the categories split the pages. A tick that finds no shutdown in progress stores these
  counts and leaves the rest of the manager as it was; a tick that finds one does
  nothing.
\<close>

lemma sweep_counts:
  "sweep evaluate ps (h, b, e)
     = (h + countOf evaluate Healthy ps, b + countOf evaluate Buffering ps,
        e + countOf evaluate Errored ps)"
proof (induction ps arbitrary: h b e)
  case Nil
  show ?case by (simp add: countOf_def)
next
  case (Cons p ps)
  show ?case
    by (cases "evaluate p")
       (auto simp: Cons.IH countOf_def categoryOf_def getHealth_def Let_def
             split: option.splits)
qed

lemma countOf_total:
  "countOf evaluate Healthy ps + countOf evaluate Buffering ps + countOf evaluate Errored ps
     = length ps"
proof (induction ps)
  case Nil
  show ?case by (simp add: countOf_def)
next
  case (Cons p ps)
  then show ?case by (cases "categoryOf evaluate p") (simp_all add: countOf_def)
qed

lemma countOf_append:
  "countOf evaluate c (ps @ qs) = countOf evaluate c ps + countOf evaluate c qs"
  by (simp add: countOf_def)

lemma thrown_counted:
  "length (filter (\<lambda>p. thrown (evaluate p) \<noteq> None) ps) \<le> countOf evaluate Errored ps"
proof (induction ps)
  case Nil
  show ?case by (simp add: countOf_def)
next
  case (Cons p ps)
  then show ?case
    by (cases "evaluate p") (simp_all add: countOf_def categoryOf_def thrown_def)
qed

lemma healthCheckTick_stats:
  assumes "\<not> isShuttingDown s"
  shows "fst (healthCheckTick evaluate onUpdate s)
           = s\<lparr>stats := (stats s)\<lparr>healthy := countOf evaluate Healthy (pages s),
                                  buffering := countOf evaluate Buffering (pages s),
                                  errors := countOf evaluate Errored (pages s)\<rparr>\<rparr>"
  using assms by (simp add: healthCheckTick_def sweep_counts Let_def)

lemma healthCheckTick_skipped:
  assumes "isShuttingDown s"
  shows "healthCheckTick evaluate onUpdate s = (s, [])"
  using assms by (simp add: healthCheckTick_def)

text \<open>
  C5, as the claim states it, fails: it has the counters recomputed on every polling
  tick. The callback of the interval returns at once when it finds the shutdown flag
  raised. On the manager of the example, whose shutdown has begun, the tick changes
  nothing: \<open>healthy\<close> stays at the 5 that the launches left although one page only reads
  as healthy, and errors + healthy + buffering stays at 7 with 6 pages tracked.
\<close>

theorem healthCheckTick_skips_when_stopping:
  "isShuttingDown stoppingManager
   \<and> pages stoppingManager = [1, 2, 3, 4, 5, 6]
   \<and> healthCheckTick sampleProbe True stoppingManager = (stoppingManager, [])
   \<and> healthy (stats (fst (healthCheckTick sampleProbe True stoppingManager))) = 5
   \<and> countOf sampleProbe Healthy (pages stoppingManager) = 1
   \<and> errors (stats (fst (healthCheckTick sampleProbe True stoppingManager)))
       + healthy (stats (fst (healthCheckTick sampleProbe True stoppingManager)))
       + buffering (stats (fst (healthCheckTick sampleProbe True stoppingManager))) = 7
   \<and> length (pages (fst (healthCheckTick sampleProbe True stoppingManager))) = 6"
proof -
  have v: "stoppingManager
             = \<lparr>browsers = [101, 102, 103, 104, 105, 106], pages = [1, 2, 3, 4, 5, 6],
                stats = \<lparr>launched = 6, healthy = 5, buffering = 0, errors = 2\<rparr>,
                isShuttingDown = True, healthCheckInterval = Some 8\<rparr>"
    by (simp add: stoppingManager_def sampleManager_def beginShutdown_def stopHealthChecks_def
          startHealthChecks_def)
  have f: "isShuttingDown stoppingManager" by (simp add: v)
  have c: "categoryOf sampleProbe 1 = Healthy" "categoryOf sampleProbe 2 = Errored"
    "categoryOf sampleProbe 3 = Errored" "categoryOf sampleProbe 4 = Buffering"
    "categoryOf sampleProbe 5 = Errored" "categoryOf sampleProbe 6 = Buffering"
    by (simp_all add: categoryOf_def sampleProbe_def playingHealth_def frozenHealth_def
          failedHealth_def pausedHealth_def)
  have n: "countOf sampleProbe Healthy (pages stoppingManager) = 1"
    using c by (simp add: v countOf_def)
  show ?thesis
    unfolding healthCheckTick_skipped [OF f] using n by (simp add: v)
qed

text \<open>
  C5, amended. On every polling tick that finds no shutdown in progress, \<open>healthy\<close>,
  \<open>buffering\<close> and \<open>errors\<close> are set to the numbers of tracked pages whose current probe
  read falls in each category, whatever the counters held before; \<open>launched\<close> is left as
  the launches have counted it. Every page whose read throws is among the errors, and
  the tracked pages and browsers stay as they were, so it is read again on the next
  tick. After the tick errors + healthy + buffering is the number of tracked pages.
\<close>

theorem healthCheckTick_recomputes:
  assumes "\<not> isShuttingDown s"
  shows "healthy (stats (fst (healthCheckTick evaluate onUpdate s)))
           = countOf evaluate Healthy (pages s)
         \<and> buffering (stats (fst (healthCheckTick evaluate onUpdate s)))
           = countOf evaluate Buffering (pages s)
         \<and> errors (stats (fst (healthCheckTick evaluate onUpdate s)))
           = countOf evaluate Errored (pages s)
         \<and> launched (stats (fst (healthCheckTick evaluate onUpdate s))) = launched (stats s)
         \<and> length (filter (\<lambda>p. thrown (evaluate p) \<noteq> None) (pages s))
           \<le> errors (stats (fst (healthCheckTick evaluate onUpdate s)))
         \<and> pages (fst (healthCheckTick evaluate onUpdate s)) = pages s
         \<and> browsers (fst (healthCheckTick evaluate onUpdate s)) = browsers s
         \<and> errors (stats (fst (healthCheckTick evaluate onUpdate s)))
             + healthy (stats (fst (healthCheckTick evaluate onUpdate s)))
             + buffering (stats (fst (healthCheckTick evaluate onUpdate s)))
           = length (pages s)"
  using countOf_total [of evaluate "pages s"] thrown_counted [of evaluate "pages s"]
  by (simp add: healthCheckTick_stats [OF assms])

theorem healthCheckTick_recomputes_witness:
  "\<not> isShuttingDown sampleManager
   \<and> healthy (stats (fst (healthCheckTick sampleProbe True sampleManager))) = 1
   \<and> buffering (stats (fst (healthCheckTick sampleProbe True sampleManager))) = 2
   \<and> errors (stats (fst (healthCheckTick sampleProbe True sampleManager))) = 3
   \<and> launched (stats (fst (healthCheckTick sampleProbe True sampleManager))) = 6
   \<and> pages (fst (healthCheckTick sampleProbe True sampleManager)) = [1, 2, 3, 4, 5, 6]"
proof -
  have g: "\<not> isShuttingDown sampleManager" and p: "pages sampleManager = [1, 2, 3, 4, 5, 6]"
    and l: "launched (stats sampleManager) = 6"
    by (simp_all add: sampleManager_def)
  have c: "categoryOf sampleProbe 1 = Healthy" "categoryOf sampleProbe 2 = Errored"
    "categoryOf sampleProbe 3 = Errored" "categoryOf sampleProbe 4 = Buffering"
    "categoryOf sampleProbe 5 = Errored" "categoryOf sampleProbe 6 = Buffering"
    by (simp_all add: categoryOf_def sampleProbe_def playingHealth_def frozenHealth_def
          failedHealth_def pausedHealth_def)
  have n: "countOf sampleProbe Healthy [1, 2, 3, 4, 5, 6] = 1"
    "countOf sampleProbe Buffering [1, 2, 3, 4, 5, 6] = 2"
    "countOf sampleProbe Errored [1, 2, 3, 4, 5, 6] = 3"
    using c by (simp_all add: countOf_def)
  show ?thesis
    using healthCheckTick_recomputes [OF g, of sampleProbe True] g p l n by simp
qed

text \<open>
  C9, as the claim states it, fails for the same guard: on a tick that finds the shutdown
  flag raised no tracked page is counted in any category. The manager of the example
  tracks page 202, whose probe reads as paused; its three counters are 0 before the tick
  and 0 after it.
\<close>

theorem healthCheckTick_counts_none_when_stopping:
  "isShuttingDown lateManager
   \<and> pages lateManager = [202]
   \<and> sampleProbe 202 = Returns (Some pausedHealth)
   \<and> healthy (stats (fst (healthCheckTick sampleProbe False lateManager))) = 0
   \<and> buffering (stats (fst (healthCheckTick sampleProbe False lateManager))) = 0
   \<and> errors (stats (fst (healthCheckTick sampleProbe False lateManager))) = 0"
proof -
  have v: "lateManager
             = \<lparr>browsers = [102], pages = [202],
                stats = \<lparr>launched = 1, healthy = 0, buffering = 0, errors = 0\<rparr>,
                isShuttingDown = True, healthCheckInterval = Some 8\<rparr>"
    by (simp add: lateManager_def launchBrowser_def sampleWorld_def okEnv_def await_def
          constructor_def beginShutdown_def stopHealthChecks_def startHealthChecks_def Let_def)
  have f: "isShuttingDown lateManager" by (simp add: v)
  have p: "sampleProbe 202 = Returns (Some pausedHealth)" by (simp add: sampleProbe_def)
  show ?thesis
    unfolding healthCheckTick_skipped [OF f] using p by (simp add: v)
qed

text \<open>
  C9, amended. On every polling tick that finds no shutdown in progress each tracked
  page is counted in exactly one category: tracking one more page raises the counter of
  that page's category by one and leaves the other counters as they are. A page whose
  probe is read and is not healthy counts as an error if and only if its error list is
  not empty, and as buffering otherwise.
\<close>

theorem healthCheckTick_one_category:
  assumes "\<not> isShuttingDown s"
  shows "stats (fst (healthCheckTick evaluate onUpdate (s\<lparr>pages := pages s @ [p]\<rparr>)))
           = countedAs (categoryOf evaluate p) (stats (fst (healthCheckTick evaluate onUpdate s)))
         \<and> (evaluate p = Returns (Some h)
              \<and> \<not> (isPlaying h \<and> lastTime h < currentTime h \<and> probeErrors h = [])
            \<longrightarrow> categoryOf evaluate p = (if probeErrors h \<noteq> [] then Errored else Buffering))"
proof -
  have g: "\<not> isShuttingDown (s\<lparr>pages := pages s @ [p]\<rparr>)" using assms by simp
  have one: "countOf evaluate c [p] = (if categoryOf evaluate p = c then 1 else 0)" for c
    by (simp add: countOf_def)
  have "stats (fst (healthCheckTick evaluate onUpdate (s\<lparr>pages := pages s @ [p]\<rparr>)))
          = countedAs (categoryOf evaluate p) (stats (fst (healthCheckTick evaluate onUpdate s)))"
    by (cases "categoryOf evaluate p")
       (simp_all add: healthCheckTick_stats [OF g] healthCheckTick_stats [OF assms]
          countOf_append one countedAs_def)
  moreover have "evaluate p = Returns (Some h)
              \<and> \<not> (isPlaying h \<and> lastTime h < currentTime h \<and> probeErrors h = [])
            \<longrightarrow> categoryOf evaluate p = (if probeErrors h \<noteq> [] then Errored else Buffering)"
    by (simp add: categoryOf_def)
  ultimately show ?thesis by simp
qed

theorem healthCheckTick_one_category_witness:
  "\<not> isShuttingDown sampleManager
   \<and> sampleProbe 5 = Returns (Some failedHealth)
   \<and> \<not> (isPlaying failedHealth \<and> lastTime failedHealth < currentTime failedHealth
          \<and> probeErrors failedHealth = [])
   \<and> categoryOf sampleProbe 5 = Errored
   \<and> stats (fst (healthCheckTick sampleProbe False sampleManager))
       = \<lparr>launched = 6, healthy = 1, buffering = 2, errors = 3\<rparr>
   \<and> stats (fst (healthCheckTick sampleProbe False
                  (sampleManager\<lparr>pages := pages sampleManager @ [5]\<rparr>)))
       = \<lparr>launched = 6, healthy = 1, buffering = 2, errors = 4\<rparr>
   \<and> sampleProbe 4 = Returns (Some frozenHealth)
   \<and> \<not> (isPlaying frozenHealth \<and> lastTime frozenHealth < currentTime frozenHealth
          \<and> probeErrors frozenHealth = [])
   \<and> categoryOf sampleProbe 4 = Buffering
   \<and> stats (fst (healthCheckTick sampleProbe False
                  (sampleManager\<lparr>pages := pages sampleManager @ [4]\<rparr>)))
       = \<lparr>launched = 6, healthy = 1, buffering = 3, errors = 3\<rparr>"
proof -
  have g: "\<not> isShuttingDown sampleManager"
    by (simp add: sampleManager_def)
  have p5: "sampleProbe 5 = Returns (Some failedHealth)"
    and p4: "sampleProbe 4 = Returns (Some frozenHealth)"
    by (simp_all add: sampleProbe_def)
  have v5: "\<not> (isPlaying failedHealth \<and> lastTime failedHealth < currentTime failedHealth
          \<and> probeErrors failedHealth = [])" "probeErrors failedHealth \<noteq> []"
    by (simp_all add: failedHealth_def playingHealth_def)
  have v4: "\<not> (isPlaying frozenHealth \<and> lastTime frozenHealth < currentTime frozenHealth
          \<and> probeErrors frozenHealth = [])" "probeErrors frozenHealth = []"
    by (simp_all add: frozenHealth_def playingHealth_def)
  have c: "categoryOf sampleProbe 1 = Healthy" "categoryOf sampleProbe 2 = Errored"
    "categoryOf sampleProbe 3 = Errored" "categoryOf sampleProbe 4 = Buffering"
    "categoryOf sampleProbe 5 = Errored" "categoryOf sampleProbe 6 = Buffering"
    by (simp_all add: categoryOf_def sampleProbe_def playingHealth_def frozenHealth_def
          failedHealth_def pausedHealth_def)
  have t: "stats (fst (healthCheckTick sampleProbe False sampleManager))
             = \<lparr>launched = 6, healthy = 1, buffering = 2, errors = 3\<rparr>"
    unfolding healthCheckTick_stats [OF g, of sampleProbe False]
    using c by (simp add: sampleManager_def countOf_def)
  from healthCheckTick_one_category [OF g, of sampleProbe False 5 failedHealth] p5 v5 t
  have a5: "categoryOf sampleProbe 5 = Errored
            \<and> stats (fst (healthCheckTick sampleProbe False
                  (sampleManager\<lparr>pages := pages sampleManager @ [5]\<rparr>)))
               = \<lparr>launched = 6, healthy = 1, buffering = 2, errors = 4\<rparr>"
    by (simp add: countedAs_def)
  from healthCheckTick_one_category [OF g, of sampleProbe False 4 frozenHealth] p4 v4 t
  have a4: "categoryOf sampleProbe 4 = Buffering
            \<and> stats (fst (healthCheckTick sampleProbe False
                  (sampleManager\<lparr>pages := pages sampleManager @ [4]\<rparr>)))
               = \<lparr>launched = 6, healthy = 1, buffering = 3, errors = 3\<rparr>"
    by (simp add: countedAs_def)
  show ?thesis using g p5 p4 v5(1) v4(1) t a5 a4 by blast
qed

text \<open>
  C10, as the claim states it, fails in its last part: the first tick overwrites what the
  launches left only if it finds no shutdown in progress. In the example launch 1 plays
  and launch 3 throws, which leaves \<open>healthy\<close> and \<open>errors\<close> at 1; a shutdown begins; the
  first tick then leaves both at 1, although the one tracked page reads as paused.
\<close>

theorem first_tick_skipped_when_stopping:
  "stats (snd (launchBrowser sampleWorld 3 ''u''
                 (snd (launchBrowser sampleWorld 1 ''u'' constructor))))
     = \<lparr>launched = 1, healthy = 1, buffering = 0, errors = 1\<rparr>
   \<and> isShuttingDown interruptedManager
   \<and> pages interruptedManager = [201]
   \<and> sampleProbe 201 = Returns (Some pausedHealth)
   \<and> stats (fst (healthCheckTick sampleProbe False interruptedManager))
     = \<lparr>launched = 1, healthy = 1, buffering = 0, errors = 1\<rparr>"
proof -
  have a: "snd (launchBrowser sampleWorld 3 ''u''
                 (snd (launchBrowser sampleWorld 1 ''u'' constructor)))
             = \<lparr>browsers = [101], pages = [201],
                stats = \<lparr>launched = 1, healthy = 1, buffering = 0, errors = 1\<rparr>,
                isShuttingDown = False, healthCheckInterval = None\<rparr>"
    by (simp add: launchBrowser_def sampleWorld_def okEnv_def await_def constructor_def Let_def)
  have v: "interruptedManager
             = \<lparr>browsers = [101], pages = [201],
                stats = \<lparr>launched = 1, healthy = 1, buffering = 0, errors = 1\<rparr>,
                isShuttingDown = True, healthCheckInterval = Some 8\<rparr>"
    unfolding interruptedManager_def a
    by (simp add: beginShutdown_def stopHealthChecks_def startHealthChecks_def)
  have f: "isShuttingDown interruptedManager" by (simp add: v)
  have p: "sampleProbe 201 = Returns (Some pausedHealth)" by (simp add: sampleProbe_def)
  show ?thesis
    unfolding healthCheckTick_skipped [OF f] a using p by (simp add: v)
qed

text \<open>
  C10, amended. A launch changes the statistics itself: a launch that confirms playback
  adds one to \<open>launched\<close> and one to \<open>healthy\<close>; a launch that throws adds one to \<open>errors\<close>
  and leaves \<open>launched\<close> and the tracked browsers and pages as they were. The first
  polling tick that finds no shutdown in progress then replaces \<open>healthy\<close>, \<open>buffering\<close>
  and \<open>errors\<close> by the counts of the tracked pages, whatever the launches had left in
  them.
\<close>

theorem launch_stats_then_tick:
  "(firstThrow (world index streamUrl) = None \<and> waitForPlayback (world index streamUrl)
      \<longrightarrow> stats (snd (launchBrowser world index streamUrl s))
            = (stats s)\<lparr>launched := launched (stats s) + 1, healthy := healthy (stats s) + 1\<rparr>)
   \<and> (firstThrow (world index streamUrl) = Some message
      \<longrightarrow> stats (snd (launchBrowser world index streamUrl s))
            = (stats s)\<lparr>errors := errors (stats s) + 1\<rparr>
          \<and> launched (stats (snd (launchBrowser world index streamUrl s))) = launched (stats s)
          \<and> browsers (snd (launchBrowser world index streamUrl s)) = browsers s
          \<and> pages (snd (launchBrowser world index streamUrl s)) = pages s)
   \<and> (\<not> isShuttingDown t
      \<longrightarrow> stats (fst (healthCheckTick evaluate onUpdate (t\<lparr>stats := st\<rparr>)))
            = \<lparr>launched = launched st,
               healthy = countOf evaluate Healthy (pages t),
               buffering = countOf evaluate Buffering (pages t),
               errors = countOf evaluate Errored (pages t)\<rparr>)"
proof -
  have a: "firstThrow (world index streamUrl) = None \<and> waitForPlayback (world index streamUrl)
      \<longrightarrow> stats (snd (launchBrowser world index streamUrl s))
            = (stats s)\<lparr>launched := launched (stats s) + 1, healthy := healthy (stats s) + 1\<rparr>"
    using launchBrowser_returns [of world index streamUrl s] by auto
  have b: "firstThrow (world index streamUrl) = Some message
      \<longrightarrow> stats (snd (launchBrowser world index streamUrl s))
            = (stats s)\<lparr>errors := errors (stats s) + 1\<rparr>
          \<and> launched (stats (snd (launchBrowser world index streamUrl s))) = launched (stats s)
          \<and> browsers (snd (launchBrowser world index streamUrl s)) = browsers s
          \<and> pages (snd (launchBrowser world index streamUrl s)) = pages s"
    using launchBrowser_throws [of world index streamUrl message s] by simp
  have c: "\<not> isShuttingDown t
      \<longrightarrow> stats (fst (healthCheckTick evaluate onUpdate (t\<lparr>stats := st\<rparr>)))
            = \<lparr>launched = launched st,
               healthy = countOf evaluate Healthy (pages t),
               buffering = countOf evaluate Buffering (pages t),
               errors = countOf evaluate Errored (pages t)\<rparr>"
    using healthCheckTick_stats [of "t\<lparr>stats := st\<rparr>" evaluate onUpdate] by simp
  from a b c show ?thesis by blast
qed

theorem launch_stats_then_tick_witness:
  "firstThrow (sampleWorld 1 ''u'') = None \<and> waitForPlayback (sampleWorld 1 ''u'')
   \<and> stats (snd (launchBrowser sampleWorld 1 ''u'' constructor))
       = \<lparr>launched = 1, healthy = 1, buffering = 0, errors = 0\<rparr>
   \<and> firstThrow (sampleWorld 3 ''u'') = Some ''net::ERR_CONNECTION_REFUSED''
   \<and> stats (snd (launchBrowser sampleWorld 3 ''u''
                  (snd (launchBrowser sampleWorld 1 ''u'' constructor))))
       = \<lparr>launched = 1, healthy = 1, buffering = 0, errors = 1\<rparr>
   \<and> pages (snd (launchBrowser sampleWorld 3 ''u''
                  (snd (launchBrowser sampleWorld 1 ''u'' constructor)))) = [201]
   \<and> \<not> isShuttingDown (snd (launchBrowser sampleWorld 1 ''u'' constructor))
   \<and> stats (fst (healthCheckTick sampleProbe False
                  (snd (launchBrowser sampleWorld 3 ''u''
                     (snd (launchBrowser sampleWorld 1 ''u'' constructor))))))
       = \<lparr>launched = 1, healthy = 0, buffering = 1, errors = 0\<rparr>"
proof -
  define a1 where "a1 = snd (launchBrowser sampleWorld 1 ''u'' constructor)"
  define a2 where "a2 = snd (launchBrowser sampleWorld 3 ''u'' a1)"
  have e1: "firstThrow (sampleWorld 1 ''u'') = None \<and> waitForPlayback (sampleWorld 1 ''u'')"
    by (simp add: sampleWorld_def okEnv_def firstThrow_def thrown_def)
  have e3: "firstThrow (sampleWorld 3 ''u'') = Some ''net::ERR_CONNECTION_REFUSED''"
    by (simp add: sampleWorld_def okEnv_def firstThrow_def thrown_def)
  have s1: "a1 = \<lparr>browsers = [101], pages = [201],
                 stats = \<lparr>launched = 1, healthy = 1, buffering = 0, errors = 0\<rparr>,
                 isShuttingDown = False, healthCheckInterval = None\<rparr>"
    by (simp add: a1_def launchBrowser_def sampleWorld_def okEnv_def await_def
          constructor_def Let_def)
  have s2: "a2 = \<lparr>browsers = [101], pages = [201],
                 stats = \<lparr>launched = 1, healthy = 1, buffering = 0, errors = 1\<rparr>,
                 isShuttingDown = False, healthCheckInterval = None\<rparr>"
    by (simp add: a2_def s1 launchBrowser_def sampleWorld_def okEnv_def await_def Let_def)
  have g1: "\<not> isShuttingDown a1" and g2: "\<not> isShuttingDown a2" and p2: "pages a2 = [201]"
    and u2: "a2\<lparr>stats := stats a2\<rparr> = a2"
    by (simp_all add: s1 s2)
  have c: "countOf sampleProbe Healthy [201] = 0" "countOf sampleProbe Buffering [201] = 1"
    "countOf sampleProbe Errored [201] = 0"
    by (simp_all add: countOf_def categoryOf_def sampleProbe_def pausedHealth_def
          playingHealth_def)
  have k1: "stats a1 = \<lparr>launched = 1, healthy = 1, buffering = 0, errors = 0\<rparr>"
    using launch_stats_then_tick
            [of sampleWorld 1 "''u''" constructor "''x''" a2 sampleProbe False "stats a2"] e1
    by (simp add: a1_def constructor_def)
  have k2: "stats (fst (healthCheckTick sampleProbe False a2))
              = \<lparr>launched = launched (stats a2),
                 healthy = countOf sampleProbe Healthy (pages a2),
                 buffering = countOf sampleProbe Buffering (pages a2),
                 errors = countOf sampleProbe Errored (pages a2)\<rparr>"
    using launch_stats_then_tick
            [of sampleWorld 1 "''u''" constructor "''x''" a2 sampleProbe False "stats a2"] g2
    unfolding u2 by blast
  have k3: "stats (fst (healthCheckTick sampleProbe False a2))
              = \<lparr>launched = 1, healthy = 0, buffering = 1, errors = 0\<rparr>"
    unfolding k2 p2 c by (simp add: s2)
  have k4: "stats a2 = \<lparr>launched = 1, healthy = 1, buffering = 0, errors = 1\<rparr>"
    by (simp add: s2)
  show ?thesis
    using e1 e3 k1 k3 k4 p2 g1 unfolding a2_def a1_def by blast
qed

section \<open>Shutdown\<close>

text \<open>
  The sweep tries every browser in order and counts those that close. A shutdown called
  with the flag raised does nothing; the first one raises the flag, stops the interval,
  sweeps, reports and empties both lists.
\<close>

lemma closeAll_result:
  "closeAll close bs n
     = (n + length (filter (\<lambda>b. thrown (close b) = None) bs), map Close bs)"
proof (induction bs arbitrary: n)
  case Nil
  show ?case by simp
next
  case (Cons b bs)
  show ?case by (cases "close b") (simp_all add: Cons.IH thrown_def)
qed

lemma shutdown_again:
  assumes "isShuttingDown s"
  shows "shutdown close s = (s, [])"
  using assms by (simp add: shutdown_def)

lemma shutdown_first:
  assumes "\<not> isShuttingDown s"
  shows "shutdown close s
           = (s\<lparr>isShuttingDown := True, healthCheckInterval := None, browsers := [], pages := []\<rparr>,
              (case healthCheckInterval s of Some t \<Rightarrow> [ClearInterval t] | None \<Rightarrow> [])
              @ map Close (browsers s)
              @ [Closed (length (filter (\<lambda>b. thrown (close b) = None) (browsers s)))
                        (length (browsers s))])"
  using assms
  by (cases "healthCheckInterval s")
     (simp_all add: shutdown_def beginShutdown_def stopHealthChecks_def closeAll_result)

text \<open>
  C4. Shutdown is idempotent. A second call, after the first has returned or after the
  first has raised the flag and not yet finished, changes nothing and does nothing, so
  the statistics and the one report of closed browsers after two calls are those after one
  call. The first call clears the monitoring interval before it closes any browser, tries
  to close every tracked browser in order whether or not an earlier one throws, reports
  the number that closed out of the number tracked, leaves the statistics as they were
  and empties the lists of browsers and pages.
\<close>

theorem shutdown_idempotent:
  "shutdown close2 (fst (shutdown close1 s)) = (fst (shutdown close1 s), [])
   \<and> snd (shutdown close1 s) @ snd (shutdown close2 (fst (shutdown close1 s)))
       = snd (shutdown close1 s)
   \<and> stats (fst (shutdown close2 (fst (shutdown close1 s)))) = stats (fst (shutdown close1 s))
   \<and> stats (fst (shutdown close1 s)) = stats s
   \<and> shutdown close2 (fst (beginShutdown s)) = (fst (beginShutdown s), [])
   \<and> (isShuttingDown s \<longrightarrow> shutdown close1 s = (s, []))
   \<and> (\<not> isShuttingDown s
      \<longrightarrow> snd (shutdown close1 s)
            = (case healthCheckInterval s of Some t \<Rightarrow> [ClearInterval t] | None \<Rightarrow> [])
              @ map Close (browsers s)
              @ [Closed (length (filter (\<lambda>b. thrown (close1 b) = None) (browsers s)))
                        (length (browsers s))]
          \<and> browsers (fst (shutdown close1 s)) = []
          \<and> pages (fst (shutdown close1 s)) = []
          \<and> healthCheckInterval (fst (shutdown close1 s)) = None)"
proof -
  have flag: "isShuttingDown (fst (shutdown close1 s))"
    by (cases "isShuttingDown s") (simp_all add: shutdown_again shutdown_first)
  have again: "shutdown close2 (fst (shutdown close1 s)) = (fst (shutdown close1 s), [])"
    by (rule shutdown_again [OF flag])
  have st: "stats (fst (shutdown close1 s)) = stats s"
    by (cases "isShuttingDown s") (simp_all add: shutdown_again shutdown_first)
  have began: "isShuttingDown (fst (beginShutdown s))"
    by (simp add: beginShutdown_def stopHealthChecks_def split: option.splits)
  have mid: "shutdown close2 (fst (beginShutdown s)) = (fst (beginShutdown s), [])"
    by (rule shutdown_again [OF began])
  show ?thesis
    using again st mid by (simp add: shutdown_again shutdown_first)
qed

theorem shutdown_idempotent_witness:
  "\<not> isShuttingDown sampleManager
   \<and> snd (shutdown sampleClose sampleManager)
       = [ClearInterval 7, Close 101, Close 102, Close 103, Close 104, Close 105, Close 106,
          Closed 5 6]
   \<and> browsers (fst (shutdown sampleClose sampleManager)) = []
   \<and> pages (fst (shutdown sampleClose sampleManager)) = []
   \<and> stats (fst (shutdown sampleClose sampleManager))
       = \<lparr>launched = 6, healthy = 5, buffering = 0, errors = 2\<rparr>
   \<and> isShuttingDown (fst (shutdown sampleClose sampleManager))
   \<and> shutdown sampleClose (fst (shutdown sampleClose sampleManager))
       = (fst (shutdown sampleClose sampleManager), [])"
proof -
  have g: "\<not> isShuttingDown sampleManager" by (simp add: sampleManager_def)
  have v: "healthCheckInterval sampleManager = Some 7"
    "browsers sampleManager = [101, 102, 103, 104, 105, 106]"
    "stats sampleManager = \<lparr>launched = 6, healthy = 5, buffering = 0, errors = 2\<rparr>"
    by (simp_all add: sampleManager_def)
  have f: "isShuttingDown (fst (shutdown sampleClose sampleManager))"
    using g by (simp add: shutdown_first)
  show ?thesis
    using shutdown_idempotent [of sampleClose sampleClose sampleManager]
      shutdown_idempotent [of sampleClose sampleClose "fst (shutdown sampleClose sampleManager)"]
      g v f
    by (simp add: sampleClose_def thrown_def)
qed

section \<open>The staggered launch\<close>




















end
